theory Spec2Isabelle
  imports Main
begin

section \<open>Common notions\<close>

text \<open>
  Strings are Isabelle strings: lists of 8-bit characters, read as the code units of a
  JavaScript string whose code units are all below 256.  A plain JavaScript object is a
  finite map from its own property names to values.  A function value held by the
  program (a subscriber, a handler, a hook) is a reference \<open>fnref\<close>; two references
  are the same function exactly when they are equal, as \<open>===\<close> and \<open>indexOf\<close> decide.
\<close>

type_synonym fnref = nat

type_synonym 'v obj = "string \<rightharpoonup> 'v"

text \<open>
  The exceptions of the program.  \<open>Thrown\<close> is an exception raised by caller-supplied
  code.  \<open>Unmodelled\<close> is not an exception: it marks an input on which the program goes
  on in a way these definitions do not describe, and nothing is stated about it.
\<close>

datatype error =
    TypeError
  | Error string
  | URIError
  | SyntaxError
  | DOMException string
  | Thrown
  | Unmodelled

text \<open>\<open>Array.prototype.indexOf\<close>: the first index holding the value, \<open>None\<close> for \<open>-1\<close>.\<close>

fun indexOf :: "'a list \<Rightarrow> 'a \<Rightarrow> nat option" where
  "indexOf [] x = None"
| "indexOf (y # ys) x = (if y = x then Some 0 else map_option Suc (indexOf ys x))"

text \<open>\<open>xs.splice(i, 1)\<close> for an index inside the array.\<close>

definition splice1 :: "nat \<Rightarrow> 'a list \<Rightarrow> 'a list" where
  "splice1 i xs = take i xs @ drop (Suc i) xs"

text \<open>\<open>s.split(c)\<close> for a one-character separator.\<close>

fun split_on :: "char \<Rightarrow> string \<Rightarrow> string list" where
  "split_on c [] = [[]]"
| "split_on c (x # xs) =
     (if x = c then [] # split_on c xs
      else (case split_on c xs of [] \<Rightarrow> [[x]] | w # ws \<Rightarrow> (x # w) # ws))"

section \<open>The state store (framework/state.js)\<close>

text \<open>
  The store is generic in the values it holds.  What the code needs of a value is given
  by a record of the JavaScript primitives it applies: the value \<open>undefined\<close>,
  truthiness, and property access \<open>obj[key]\<close> on a truthy value.
\<close>

record 'v js =
  undef :: 'v
  truthy :: "'v \<Rightarrow> bool"
  get_prop :: "'v \<Rightarrow> string \<Rightarrow> 'v"

text \<open>
  The argument of \<open>setState\<close>: a plain mapping, or a function from the current
  snapshot to a mapping.
\<close>

datatype 'v update = Plain "'v obj" | Functional "'v obj \<Rightarrow> 'v obj"

text \<open>An argument that is expected to be a function: a function reference or anything else.\<close>

datatype 'f arg = Fn 'f | NotFn

text \<open>
  A subscriber is caller-supplied code.  It is called with the new state, the old state
  and the applied update, and it may call back into the store before it returns.  Its body
  is modelled as the list of statements it executes, chosen from its three arguments: calls
  of the store's methods (results discarded) and \<open>throw\<close>.  \<open>Unsubscribe f\<close> calls
  the closure that \<open>subscribe(f)\<close> returned.  A body that is \<open>[]\<close> is a subscriber
  that leaves the store alone.
\<close>

datatype 'v call =
    GetState "string option"
  | SetState "'v update"
  | Subscribe "fnref arg"
  | Unsubscribe fnref
  | Computed string "('v obj \<Rightarrow> 'v) arg"
  | Reset "'v obj option"
  | SubscriberCount

datatype 'v stmt = Call "'v call" | Throw

type_synonym 'v code = "fnref \<Rightarrow> 'v obj \<Rightarrow> 'v obj \<Rightarrow> 'v obj \<Rightarrow> 'v stmt list"

text \<open>
  The variables closed over by the object \<open>createState\<close> returns.  \<open>persist\<close> is
  \<open>None\<close> when \<open>config.persistence\<close> is falsy; otherwise it tells for which states
  serialising and writing succeed (a failure is caught and logged by \<open>saveState\<close>).
  \<open>backend\<close> is the snapshot last written under the persistence key.  \<open>getterCalls\<close>
  is a ghost field: the names whose getter \<open>getState\<close> invoked, in order.
\<close>

record 'v store =
  initialState :: "'v obj"
  persist :: "('v obj \<Rightarrow> bool) option"
  state :: "'v obj"
  subscribers :: "fnref list"
  computedCache :: "string \<rightharpoonup> 'v"
  computedProperties :: "string \<rightharpoonup> ('v obj \<Rightarrow> 'v)"
  backend :: "'v obj option"
  getterCalls :: "string list"


definition saveState :: "'v store \<Rightarrow> 'v store" where
  "saveState st =
     (case persist st of
        None \<Rightarrow> st
      | Some ok \<Rightarrow> if ok (state st) then st\<lparr>backend := Some (state st)\<rparr> else st)"

datatype 'v got = Snapshot "'v obj" | Value 'v

text \<open>
  \<open>getState(prop)\<close>.  \<open>if (prop)\<close> is false for a missing argument and for the
  empty string.  The reducer of the dotted path starts from the state object, which is
  truthy; from the second key on it works on values.  \<open>computedProperties[prop]\<close> and
  \<open>state[prop]\<close> are read on the own properties of the two objects (the names that
  every object inherits, such as \<open>toString\<close>, are left out), and a getter is a function
  of the state that returns a value.
\<close>

definition own :: "'v js \<Rightarrow> 'v obj \<Rightarrow> string \<Rightarrow> 'v" where
  "own J s k = (case s k of None \<Rightarrow> undef J | Some v \<Rightarrow> v)"

definition reducer :: "'v js \<Rightarrow> 'v \<Rightarrow> string \<Rightarrow> 'v" where
  "reducer J ob k =
     (if truthy J ob \<and> get_prop J ob k \<noteq> undef J then get_prop J ob k else undef J)"

definition getState :: "'v js \<Rightarrow> string option \<Rightarrow> 'v store \<Rightarrow> 'v got \<times> 'v store" where
  "getState J prop st =
     (case prop of
        None \<Rightarrow> (Snapshot (state st), st)
      | Some p \<Rightarrow>
          if p = [] then (Snapshot (state st), st)
          else (case computedProperties st p of
                  Some getter \<Rightarrow>
                    (case computedCache st p of
                       Some v \<Rightarrow> (Value v, st)
                     | None \<Rightarrow>
                         let v = getter (state st)
                         in (Value v, st\<lparr>computedCache := (computedCache st)(p \<mapsto> v),
                                         getterCalls := getterCalls st @ [p]\<rparr>))
                | None \<Rightarrow>
                    if CHR ''.'' \<in> set p
                    then (case split_on CHR ''.'' p of
                            [] \<Rightarrow> (Value (undef J), st)
                          | k # ks \<Rightarrow> (Value (foldl (reducer J) (own J (state st) k) ks), st))
                    else (Value (own J (state st) p), st)))"




definition subscriberCount :: "'v store \<Rightarrow> nat" where
  "subscriberCount st = length (subscribers st)"








text \<open>
  Two stores that agree on the state and on the computed property \<open>name\<close>: its getter,
  its cache entry and the number of times its getter was invoked.
\<close>

definition same_property :: "string \<Rightarrow> 'v store \<Rightarrow> 'v store \<Rightarrow> bool" where
  "same_property name st st' \<longleftrightarrow>
     state st' = state st
     \<and> computedProperties st' name = computedProperties st name
     \<and> computedCache st' name = computedCache st name
     \<and> filter (\<lambda>n. n = name) (getterCalls st') = filter (\<lambda>n. n = name) (getterCalls st)"

subsection \<open>A concrete value type for examples\<close>











section \<open>The router (framework/router.js)\<close>

subsection \<open>Compiling a path pattern\<close>

text \<open>\<open>path.replace(/\/\//g, '/')\<close>: every pair of slashes, scanning from the left.\<close>

fun collapse_slashes :: "string \<Rightarrow> string" where
  "collapse_slashes (a # b # s) =
     (if a = CHR ''/'' \<and> b = CHR ''/'' then CHR ''/'' # collapse_slashes s
      else a # collapse_slashes (b # s))"
| "collapse_slashes s = s"

text \<open>The class \<open>\w\<close>: letters, digits and the underscore.\<close>

definition isWord :: "char \<Rightarrow> bool" where
  "isWord c \<longleftrightarrow>
     (let n = of_char c :: nat
      in (48 \<le> n \<and> n \<le> 57) \<or> (65 \<le> n \<and> n \<le> 90) \<or> (97 \<le> n \<and> n \<le> 122) \<or> n = 95)"

text \<open>\<open>.replace(/:\w+/g, '([^/]+)')\<close>: a colon and the longest run of word characters after it.\<close>

function replace_params :: "string \<Rightarrow> string" where
  "replace_params [] = []"
| "replace_params (c # s) =
     (if c = CHR '':'' \<and> takeWhile isWord s \<noteq> []
      then ''([^/]+)'' @ replace_params (dropWhile isWord s)
      else c # replace_params s)"
  by pat_completeness auto
termination
  by (relation "measure length") (auto simp: length_dropWhile_le le_imp_less_Suc)

text \<open>\<open>.replace(/\*\*/g, '(.*)')\<close>.\<close>

fun replace_wild :: "string \<Rightarrow> string" where
  "replace_wild (a # b # s) =
     (if a = CHR ''*'' \<and> b = CHR ''*'' then ''(.*)'' @ replace_wild s
      else a # replace_wild (b # s))"
| "replace_wild s = s"

text \<open>\<open>(path.match(/:\w+/g) || []).map(param => param.substring(1))\<close>.\<close>

function param_names :: "string \<Rightarrow> string list" where
  "param_names [] = []"
| "param_names (c # s) =
     (if c = CHR '':'' \<and> takeWhile isWord s \<noteq> []
      then takeWhile isWord s # param_names (dropWhile isWord s)
      else param_names s)"
  by pat_completeness auto
termination
  by (relation "measure length") (auto simp: length_dropWhile_le le_imp_less_Suc)

subsection \<open>The regular expressions that \<open>add\<close> builds\<close>

text \<open>
  \<open>new RegExp(`^${pattern}$`)\<close> is modelled for the patterns made of the two groups
  that \<open>add\<close> inserts, the dot, and characters that stand for themselves.  A pattern
  with any other syntax character of regular expressions has no model here
  (\<open>parse_regexp\<close> gives \<open>None\<close>).  The token list is the body between \<open>^\<close> and
  \<open>$\<close>.
\<close>

datatype tok =
    Lit char
  | Dot
  | Seg
  | Wild

definition syntaxChar :: "char \<Rightarrow> bool" where
  "syntaxChar c \<longleftrightarrow> c = CHR 0x5C \<or> c \<in> set ''^$.*+?()[]{}|''"

fun parse_regexp :: "string \<Rightarrow> tok list option" where
  "parse_regexp [] = Some []"
| "parse_regexp (c # s) =
     (if take 7 (c # s) = ''([^/]+)'' then map_option (Cons Seg) (parse_regexp (drop 6 s))
      else if take 4 (c # s) = ''(.*)'' then map_option (Cons Wild) (parse_regexp (drop 3 s))
      else if c = CHR ''.'' then map_option (Cons Dot) (parse_regexp s)
      else if syntaxChar c then None
      else map_option (Cons (Lit c)) (parse_regexp s))"

text \<open>
  Matching the whole string, as \<open>^...$\<close> without flags does.  A group is greedy: it
  takes the longest run it may and gives back one character at a time until the rest of
  the pattern matches.  \<open>[^/]+\<close> takes characters other than the slash, at least one;
  \<open>.*\<close> takes characters other than line terminators.  The result lists the text
  of the groups in order (\<open>matches.slice(1)\<close>).
\<close>

definition lineTerminator :: "char \<Rightarrow> bool" where
  "lineTerminator c \<longleftrightarrow> c = CHR 0x0A \<or> c = CHR 0x0D"

text \<open>The first of \<open>hi, hi - 1, ..., lo\<close> at which \<open>f\<close> succeeds.\<close>

fun descend :: "(nat \<Rightarrow> 'a option) \<Rightarrow> nat \<Rightarrow> nat \<Rightarrow> (nat \<times> 'a) option" where
  "descend f lo 0 = (if lo = 0 then map_option (Pair 0) (f 0) else None)"
| "descend f lo (Suc n) =
     (if Suc n < lo then None
      else (case f (Suc n) of Some r \<Rightarrow> Some (Suc n, r) | None \<Rightarrow> descend f lo n))"

fun regexp_exec :: "tok list \<Rightarrow> string \<Rightarrow> string list option" where
  "regexp_exec [] s = (if s = [] then Some [] else None)"
| "regexp_exec (Lit c # ts) s =
     (case s of [] \<Rightarrow> None | x # xs \<Rightarrow> if x = c then regexp_exec ts xs else None)"
| "regexp_exec (Dot # ts) s =
     (case s of [] \<Rightarrow> None | x # xs \<Rightarrow> if lineTerminator x then None else regexp_exec ts xs)"
| "regexp_exec (Seg # ts) s =
     (case descend (\<lambda>n. regexp_exec ts (drop n s)) 1
             (length (takeWhile (\<lambda>c. c \<noteq> CHR ''/'') s)) of
        None \<Rightarrow> None
      | Some (n, groups) \<Rightarrow> Some (take n s # groups))"
| "regexp_exec (Wild # ts) s =
     (case descend (\<lambda>n. regexp_exec ts (drop n s)) 0
             (length (takeWhile (\<lambda>c. \<not> lineTerminator c) s)) of
        None \<Rightarrow> None
      | Some (n, groups) \<Rightarrow> Some (take n s # groups))"

subsection \<open>\<open>decodeURIComponent\<close>\<close>

text \<open>
  Characters other than \<open>%\<close> are copied.  \<open>%XX\<close> below 0x80 is that character.  A
  two-byte UTF-8 sequence \<open>%C2%XX\<close> or \<open>%C3%XX\<close> is the character U+0080 to U+00FF
  it encodes.  A malformed escape throws \<open>URIError\<close>.  A longer sequence either is
  malformed or encodes a character outside the strings of this model: the result is
  \<open>Unmodelled\<close>.
\<close>

definition hexval :: "char \<Rightarrow> nat option" where
  "hexval c =
     (let n = of_char c :: nat
      in if 48 \<le> n \<and> n \<le> 57 then Some (n - 48)
         else if 65 \<le> n \<and> n \<le> 70 then Some (n - 55)
         else if 97 \<le> n \<and> n \<le> 102 then Some (n - 87)
         else None)"

text \<open>The byte of an escape \<open>%XX\<close> at the head of a string, and the rest of the string.\<close>

definition escape :: "string \<Rightarrow> (nat \<times> string) option" where
  "escape s =
     (case s of
        p # h1 # h2 # rest \<Rightarrow>
          if p = CHR ''%'' then
            (case (hexval h1, hexval h2) of
               (Some a, Some b) \<Rightarrow> Some (16 * a + b, rest)
             | _ \<Rightarrow> None)
          else None
      | _ \<Rightarrow> None)"

function decodeURIComponent :: "string \<Rightarrow> error + string" where
  "decodeURIComponent [] = Inr []"
| "decodeURIComponent (c # s) =
     (if c \<noteq> CHR ''%'' then map_sum id (Cons c) (decodeURIComponent s)
      else (case escape (c # s) of
              None \<Rightarrow> Inl URIError
            | Some (b, rest) \<Rightarrow>
                if b < 0x80 then map_sum id (Cons (char_of b)) (decodeURIComponent rest)
                else if b < 0xC2 \<or> 0xF8 \<le> b then Inl URIError
                else if 0xC4 \<le> b then Inl Unmodelled
                else (case escape rest of
                        None \<Rightarrow> Inl URIError
                      | Some (b2, rest2) \<Rightarrow>
                          if 0x80 \<le> b2 \<and> b2 < 0xC0
                          then map_sum id (Cons (char_of ((b - 0xC0) * 64 + (b2 - 0x80))))
                                 (decodeURIComponent rest2)
                          else Inl URIError)))"
  by pat_completeness auto
termination
  by (relation "measure length")
     (auto simp: escape_def split: list.splits if_splits option.splits)

subsection \<open>Routes, \<open>add\<close> and \<open>match\<close>\<close>

record 'm route =
  path :: string
  handler :: fnref
  regexp :: "tok list"
  paramNames :: "string list"
  meta :: 'm

text \<open>The current route \<open>{path, params, meta}\<close>; \<open>None\<close> is \<open>null\<close>.\<close>

record 'm current =
  cur_path :: string
  cur_params :: "string \<rightharpoonup> string"
  cur_meta :: 'm

record 'm router =
  routes :: "'m route list"
  currentRoute :: "'m current option"
  defaultRoute :: string
  notFoundHandler :: "fnref option"
  beforeEach :: "fnref option"
  afterEach :: "fnref option"
  listeners :: "fnref list"
  currentHash :: string

text \<open>
  \<open>new Router(options)\<close>; \<open>hash\<close> is \<open>window.location.hash\<close>.  An option that is
  missing is \<open>None\<close>; an empty \<open>defaultRoute\<close> is falsy and replaced by \<open>/\<close>.
\<close>

definition createRouter ::
  "string option \<Rightarrow> fnref option \<Rightarrow> fnref option \<Rightarrow> fnref option \<Rightarrow> string \<Rightarrow> 'm router" where
  "createRouter dflt notFound beforeHook afterHook hash =
     (let d = (case dflt of None \<Rightarrow> ''/'' | Some s \<Rightarrow> if s = [] then ''/'' else s)
      in \<lparr> routes = [],
           currentRoute = None,
           defaultRoute = d,
           notFoundHandler = notFound,
           beforeEach = beforeHook,
           afterEach = afterHook,
           listeners = [],
           currentHash = (if drop 1 hash = [] then d else drop 1 hash) \<rparr>)"

definition add :: "string \<Rightarrow> fnref \<Rightarrow> 'm \<Rightarrow> 'm router \<Rightarrow> error + 'm router" where
  "add p h m r =
     (let pattern = replace_wild (replace_params (collapse_slashes p))
      in (case parse_regexp pattern of
            None \<Rightarrow> Inl Unmodelled
          | Some re \<Rightarrow>
              Inr (r\<lparr>routes := routes r @
                     [\<lparr> path = p, handler = h, regexp = re,
                        paramNames = param_names p, meta = m \<rparr>]\<rparr>)))"

text \<open>
  The loop \<open>matches.slice(1).forEach((value, index) => ...)\<close> of \<open>match\<close>.
  \<open>paramNames[index]\<close> beyond the end of the array is \<open>undefined\<close>, and the property
  assigned is then the one named \<open>undefined\<close>.
\<close>

definition param_key :: "string list \<Rightarrow> nat \<Rightarrow> string" where
  "param_key names index = (if index < length names then names ! index else ''undefined'')"

fun assign_params ::
  "string list \<Rightarrow> nat \<Rightarrow> string list \<Rightarrow> (string \<rightharpoonup> string) \<Rightarrow> error + (string \<rightharpoonup> string)" where
  "assign_params names index [] params = Inr params"
| "assign_params names index (v # rest) params =
     (case decodeURIComponent v of
        Inl e \<Rightarrow> Inl e
      | Inr d \<Rightarrow> assign_params names (Suc index) rest (params(param_key names index \<mapsto> d)))"

fun match :: "'m route list \<Rightarrow> string \<Rightarrow> error + ('m route \<times> (string \<rightharpoonup> string)) option" where
  "match [] p = Inr None"
| "match (route # rest) p =
     (case regexp_exec (regexp route) p of
        None \<Rightarrow> match rest p
      | Some matches \<Rightarrow>
          if length (paramNames route) > 0
          then (case assign_params (paramNames route) 0 matches Map.empty of
                  Inl e \<Rightarrow> Inl e
                | Inr params \<Rightarrow> Inr (Some (route, params)))
          else Inr (Some (route, Map.empty)))"

subsection \<open>\<open>handleRouteChange\<close>\<close>

text \<open>
  The route handlers, the not-found handler, the hooks and the listeners are
  caller-supplied functions.  A call of one is recorded as an event with its arguments;
  what such a function does to the router itself is outside this model.  The one result
  the router reads is what \<open>await this.beforeEach(...)\<close> yields: exactly \<open>false\<close>,
  another value, or a rejection.

  \<open>handleRouteChange\<close> is an \<open>async\<close> function.  It runs without interruption
  up to the \<open>await\<close> (\<open>handleRouteChange_start\<close>), which is reached only when a
  \<open>beforeEach\<close> hook is configured; its continuation (\<open>handleRouteChange_resume\<close>)
  runs when the hook has settled, on the router as it is by then, and reads
  \<open>this.currentRoute\<close> anew.  The local variables that the continuation keeps are the
  record \<open>pending\<close>.  An exception inside the function rejects the promise it returns.
\<close>

datatype resolution = Resolves_false | Resolves_other | Rejects

datatype 'm event =
    Called_beforeEach fnref "'m current option" "'m current option"
  | Called_handler fnref "string \<rightharpoonup> string" "'m current option"
  | Called_notFoundHandler fnref string
  | Called_afterEach fnref "'m current option" "'m current option"
  | Called_listener fnref "'m current option"

datatype completion = Fulfilled | Rejected error

type_synonym 'm hooks = "fnref \<Rightarrow> 'm current option \<Rightarrow> 'm current option \<Rightarrow> resolution"

record 'm pending =
  currentPath :: string
  matchedRoute :: "('m route \<times> (string \<rightharpoonup> string)) option"
  previousRoute :: "'m current option"

text \<open>\<open>path || window.location.hash.slice(1) || this.defaultRoute\<close>.\<close>

definition currentPath_of :: "string option \<Rightarrow> string \<Rightarrow> 'm router \<Rightarrow> string" where
  "currentPath_of arg hash r =
     (case arg of
        Some p \<Rightarrow> if p \<noteq> [] then p
                  else if drop 1 hash \<noteq> [] then drop 1 hash else defaultRoute r
      | None \<Rightarrow> if drop 1 hash \<noteq> [] then drop 1 hash else defaultRoute r)"

text \<open>The value assigned to \<open>this.currentRoute\<close> from the result of \<open>match\<close>.\<close>

definition candidate ::
  "string \<Rightarrow> ('m route \<times> (string \<rightharpoonup> string)) option \<Rightarrow> 'm current option" where
  "candidate path' matched =
     (case matched of
        Some (route, params) \<Rightarrow>
          Some \<lparr> cur_path = path', cur_params = params, cur_meta = meta route \<rparr>
      | None \<Rightarrow> None)"

text \<open>\<open>notifyListeners(route)\<close>.\<close>

definition notifyListeners :: "'m router \<Rightarrow> 'm current option \<Rightarrow> 'm event list" where
  "notifyListeners r route = map (\<lambda>listener. Called_listener listener route) (listeners r)"

text \<open>The statements up to the hook: the assignments and \<open>match\<close>, which may throw.\<close>

definition handleRouteChange_start ::
  "string \<Rightarrow> string option \<Rightarrow> 'm router \<Rightarrow> 'm router \<times> (error + 'm pending)" where
  "handleRouteChange_start hash arg r =
     (let path' = currentPath_of arg hash r;
          r1 = r\<lparr>currentHash := path'\<rparr>
      in (case match (routes r1) path' of
            Inl e \<Rightarrow> (r1, Inl e)
          | Inr matched \<Rightarrow>
              (r1\<lparr>currentRoute := candidate path' matched\<rparr>,
               Inr \<lparr> currentPath = path', matchedRoute = matched,
                      previousRoute = currentRoute r1 \<rparr>)))"

text \<open>
  The statements after the hook: the route handler or the not-found handler, the
  \<open>afterEach\<close> hook, the listeners.
\<close>

definition proceed :: "'m pending \<Rightarrow> 'm router \<Rightarrow> 'm event list" where
  "proceed pend r =
     (case matchedRoute pend of
        Some (route, params) \<Rightarrow> [Called_handler (handler route) params (currentRoute r)]
      | None \<Rightarrow>
          (case notFoundHandler r of
             Some nf \<Rightarrow> [Called_notFoundHandler nf (currentPath pend)]
           | None \<Rightarrow> []))
     @ (case afterEach r of
          Some h \<Rightarrow> [Called_afterEach h (currentRoute r) (previousRoute pend)]
        | None \<Rightarrow> [])
     @ notifyListeners r (currentRoute r)"

text \<open>The continuation after \<open>await\<close>, given what the hook yielded.\<close>

definition handleRouteChange_resume ::
  "resolution \<Rightarrow> 'm pending \<Rightarrow> 'm router \<Rightarrow> 'm router \<times> 'm event list \<times> completion" where
  "handleRouteChange_resume next pend r =
     (case next of
        Rejects \<Rightarrow> (r, [], Rejected Thrown)
      | Resolves_false \<Rightarrow> (r, [], Fulfilled)
      | Resolves_other \<Rightarrow> (r, proceed pend r, Fulfilled))"

text \<open>
  One call from entry to the settling of its promise, when nothing else uses the router
  while the hook is awaited.  \<open>B\<close> gives what the hook yields from its arguments.
\<close>

definition handleRouteChange ::
  "'m hooks \<Rightarrow> string \<Rightarrow> string option \<Rightarrow> 'm router \<Rightarrow> 'm router \<times> 'm event list \<times> completion" where
  "handleRouteChange B hash arg r =
     (case handleRouteChange_start hash arg r of
        (r1, Inl e) \<Rightarrow> (r1, [], Rejected e)
      | (r2, Inr pend) \<Rightarrow>
          (case beforeEach r2 of
             None \<Rightarrow> (r2, proceed pend r2, Fulfilled)
           | Some h \<Rightarrow>
               (case handleRouteChange_resume (B h (currentRoute r2) (previousRoute pend))
                       pend r2 of
                  (r3, events, settled) \<Rightarrow>
                    (r3, Called_beforeEach h (currentRoute r2) (previousRoute pend) # events,
                     settled))))"

definition getCurrentRoute :: "'m router \<Rightarrow> 'm current option" where
  "getCurrentRoute r = currentRoute r"

text \<open>\<open>onRouteChange(callback)\<close>; the closure it returns is \<open>offRouteChange callback\<close>.\<close>

definition onRouteChange :: "fnref arg \<Rightarrow> 'm router \<Rightarrow> error + 'm router" where
  "onRouteChange callback r =
     (case callback of
        NotFn \<Rightarrow> Inl (Error ''Route change listener must be a function'')
      | Fn f \<Rightarrow> Inr (r\<lparr>listeners := listeners r @ [f]\<rparr>))"

definition offRouteChange :: "fnref \<Rightarrow> 'm router \<Rightarrow> 'm router" where
  "offRouteChange callback r =
     (case indexOf (listeners r) callback of
        None \<Rightarrow> r
      | Some index \<Rightarrow> r\<lparr>listeners := splice1 index (listeners r)\<rparr>)"

subsection \<open>Path patterns by segments\<close>

text \<open>
  The patterns the router is written for: a sequence of segments, each after a slash,
  where a segment is literal text, a parameter \<open>:name\<close> or the wildcard \<open>**\<close>.
  Literal text is not empty and has no slash, no colon and, the dot apart, no syntax
  character of regular expressions; a parameter name is a non-empty run of word
  characters.  A dot in literal text is compiled, as it stands, to the dot of regular
  expressions.
\<close>

datatype segment = Literal string | Param string | Wildcard

fun segment_text :: "segment \<Rightarrow> string" where
  "segment_text (Literal t) = t"
| "segment_text (Param n) = CHR '':'' # n"
| "segment_text Wildcard = ''**''"

definition path_of :: "segment list \<Rightarrow> string" where
  "path_of segs = concat (map (\<lambda>s. CHR ''/'' # segment_text s) segs)"







text \<open>A string is tidy when it is empty or starts with a slash.\<close>

definition tidy :: "string \<Rightarrow> bool" where
  "tidy s \<longleftrightarrow> s = [] \<or> hd s = CHR ''/''"









text \<open>The calls that a vetoed transition must not make.\<close>

fun after_veto :: "'m event \<Rightarrow> bool" where
  "after_veto (Called_handler _ _ _) = True"
| "after_veto (Called_notFoundHandler _ _) = True"
| "after_veto (Called_afterEach _ _ _) = True"
| "after_veto (Called_listener _ _) = True"
| "after_veto (Called_beforeEach _ _ _) = False"

text \<open>A \<open>beforeEach\<close> hook that always resolves to \<open>false\<close>, and one that lets
  only the path \<open>/about\<close> through.\<close>

definition veto_all :: "unit hooks" where
  "veto_all = (\<lambda>h cur prev. Resolves_false)"

definition guard_users :: "unit hooks" where
  "guard_users = (\<lambda>h cur prev.
     case cur of
       Some c \<Rightarrow> if cur_path c = ''/about'' then Resolves_other else Resolves_false
     | None \<Rightarrow> Resolves_other)"

text \<open>A router with three routes, a \<open>beforeEach\<close> hook, an \<open>afterEach\<close> hook and two
  listeners.\<close>

definition demo_routes :: "unit route list" where
  "demo_routes =
     [\<lparr> path = ''/about'', handler = 10, regexp = map Lit ''/about'',
        paramNames = [], meta = () \<rparr>,
      \<lparr> path = ''/users/:id'', handler = 11, regexp = map Lit ''/users/'' @ [Seg],
        paramNames = [''id''], meta = () \<rparr>,
      \<lparr> path = ''/users/:id/:tab'', handler = 12,
        regexp = map Lit ''/users/'' @ [Seg, Lit CHR ''/'', Seg],
        paramNames = [''id'', ''tab''], meta = () \<rparr>]"

definition demo_router :: "unit router" where
  "demo_router =
     (createRouter None None (Some 20) (Some 21) [])
       \<lparr>routes := demo_routes, listeners := [30, 31]\<rparr>"

section \<open>The virtual DOM (framework/dom.js)\<close>

subsection \<open>Values\<close>

text \<open>
  The code is generic in the numbers it is given.  What it needs of the platform is
  collected in a record: \<open>String(n)\<close> of a number, whether a number is falsy (zero or
  NaN), \<open>String(f)\<close> of a function, and which names \<open>document.createElement\<close> and
  \<open>setAttribute\<close> accept (they throw \<open>InvalidCharacterError\<close> on the others).
\<close>

record 'n platform =
  num_string :: "'n \<Rightarrow> string"
  num_falsy :: "'n \<Rightarrow> bool"
  fn_string :: "fnref \<Rightarrow> string"
  valid_name :: "string \<Rightarrow> bool"

text \<open>The value of an attribute; \<open>AObj\<close> is an object, given by its own properties.\<close>

datatype 'n attrval =
    AUndefined
  | ANull
  | ABool bool
  | ANum 'n
  | AStr string
  | AFun fnref
  | AObj "(string \<times> string) list"

type_synonym 'n attrs = "(string \<times> 'n attrval) list"

text \<open>
  What may stand where the code expects a virtual node: a primitive, an array, a text node
  \<open>{type: 'text', value}\<close>, or another object, of which the properties \<open>tag\<close>,
  \<open>attrs\<close> and \<open>children\<close> are read (\<open>None\<close> where the object has no such property,
  and for \<open>attrs\<close> also where it is \<open>null\<close>).
\<close>

datatype 'n vnode =
    VUndefined
  | VNull
  | VBool bool
  | VNum 'n
  | VStr string
  | VArr "'n vnode list"
  | VText string
  | VNode "string option" "'n attrs option" "'n vnode list option"

subsection \<open>\<open>createElement\<close>\<close>

text \<open>\<open>children.flat()\<close>: the elements of an array argument take its place, one level deep.\<close>

fun flat :: "'n vnode list \<Rightarrow> 'n vnode list" where
  "flat [] = []"
| "flat (VArr xs # rest) = xs @ flat rest"
| "flat (x # rest) = x # flat rest"

definition createElement ::
  "'n platform \<Rightarrow> string option \<Rightarrow> 'n attrs option \<Rightarrow> 'n vnode list \<Rightarrow> 'n vnode" where
  "createElement P tag attrs children =
     (let flatChildren =
            filter (\<lambda>child. child \<noteq> VNull \<and> child \<noteq> VUndefined \<and> child \<noteq> VBool False)
              (flat children)
      in VNode tag
           (Some (case attrs of None \<Rightarrow> [] | Some a \<Rightarrow> a))
           (Some (map (\<lambda>child. case child of
                                 VStr s \<Rightarrow> VText s
                               | VNum n \<Rightarrow> VText (num_string P n)
                               | _ \<Rightarrow> child)
                    flatChildren)))"

text \<open>The properties of a value as the code reads them.\<close>

fun tag_of :: "'n vnode \<Rightarrow> string option" where
  "tag_of (VNode tag _ _) = tag"
| "tag_of _ = None"

fun attrs_of :: "'n vnode \<Rightarrow> 'n attrs option" where
  "attrs_of (VNode _ attrs _) = attrs"
| "attrs_of _ = None"

fun children_of :: "'n vnode \<Rightarrow> 'n vnode list option" where
  "children_of (VNode _ _ children) = children"
| "children_of _ = None"

text \<open>\<open>!v\<close>.\<close>

fun falsy :: "'n platform \<Rightarrow> 'n vnode \<Rightarrow> bool" where
  "falsy P VUndefined = True"
| "falsy P VNull = True"
| "falsy P (VBool b) = (\<not> b)"
| "falsy P (VNum n) = num_falsy P n"
| "falsy P (VStr s) = (s = [])"
| "falsy P _ = False"

subsection \<open>The children of \<open>createElement\<close>, as the specification words them\<close>

text \<open>
  An entry that is \<open>null\<close>, \<open>undefined\<close> or \<open>false\<close> is dropped; a string or a
  number becomes a text node of its string representation; anything else is kept.  An
  array argument contributes its entries; an array inside it is an entry like any other.
\<close>

fun entry :: "'n platform \<Rightarrow> 'n vnode \<Rightarrow> 'n vnode list" where
  "entry P VNull = []"
| "entry P VUndefined = []"
| "entry P (VBool False) = []"
| "entry P (VStr s) = [VText s]"
| "entry P (VNum n) = [VText (num_string P n)]"
| "entry P v = [v]"

fun children_spec :: "'n platform \<Rightarrow> 'n vnode list \<Rightarrow> 'n vnode list" where
  "children_spec P [] = []"
| "children_spec P (VArr xs # rest) = concat (map (entry P) xs) @ children_spec P rest"
| "children_spec P (x # rest) = entry P x @ children_spec P rest"

text \<open>The filter and the wrapping of \<open>createElement\<close>, named.\<close>

definition keep :: "'n vnode \<Rightarrow> bool" where
  "keep child \<longleftrightarrow> child \<noteq> VNull \<and> child \<noteq> VUndefined \<and> child \<noteq> VBool False"

definition wrap :: "'n platform \<Rightarrow> 'n vnode \<Rightarrow> 'n vnode" where
  "wrap P child = (case child of VStr s \<Rightarrow> VText s | VNum n \<Rightarrow> VText (num_string P n) | _ \<Rightarrow> child)"

fun is_node :: "'n vnode \<Rightarrow> bool" where
  "is_node (VText _) = True"
| "is_node (VNode _ _ _) = True"
| "is_node _ = False"

fun is_primitive :: "'n vnode \<Rightarrow> bool" where
  "is_primitive (VStr _) = True"
| "is_primitive (VNum _) = True"
| "is_primitive _ = False"

subsection \<open>The live DOM\<close>

text \<open>
  A live node is a text node or an element.  The nodes the code handles are created by
  \<open>render\<close> and held in one place of one tree, so a tree of values describes them; a
  function that changes a node returns the node as changed, and the caller puts it where
  the node was.  \<open>style\<close> holds the declarations set through \<open>element.style\<close> since
  the \<open>style\<close> attribute was last removed.
\<close>

datatype dom =
    Text string "(string \<times> fnref) list"
  | Element string "(string \<times> string) list" "(string \<times> string) list"
      "(string \<times> fnref) list" "dom list"

fun childNodes :: "dom \<Rightarrow> dom list" where
  "childNodes (Element _ _ _ _ cs) = cs"
| "childNodes (Text _ _) = []"

fun set_childNodes :: "dom list \<Rightarrow> dom \<Rightarrow> dom" where
  "set_childNodes cs (Element t a s l _) = Element t a s l cs"
| "set_childNodes cs (Text v l) = Text v l"

text \<open>An association list as an ordered map: assignment in place or at the end.\<close>

fun assign :: "'k \<Rightarrow> 'v \<Rightarrow> ('k \<times> 'v) list \<Rightarrow> ('k \<times> 'v) list" where
  "assign k v [] = [(k, v)]"
| "assign k v ((k', v') # ps) = (if k = k' then (k, v) # ps else (k', v') # assign k v ps)"

definition createTextNode :: "string \<Rightarrow> dom" where
  "createTextNode v = Text v []"

definition document_createElement :: "'n platform \<Rightarrow> string \<Rightarrow> error + dom" where
  "document_createElement P tag =
     (if valid_name P tag then Inr (Element tag [] [] [] [])
      else Inl (DOMException ''InvalidCharacterError''))"

text \<open>\<open>container.appendChild(node)\<close> for a node that has no parent.\<close>

fun appendChild :: "dom \<Rightarrow> dom \<Rightarrow> error + dom" where
  "appendChild node (Element t a s l cs) = Inr (Element t a s l (cs @ [node]))"
| "appendChild node (Text v l) = Inl (DOMException ''HierarchyRequestError'')"

fun setAttribute :: "'n platform \<Rightarrow> string \<Rightarrow> string \<Rightarrow> dom \<Rightarrow> error + dom" where
  "setAttribute P name v (Element t a s l cs) =
     (if valid_name P name then Inr (Element t (assign name v a) s l cs)
      else Inl (DOMException ''InvalidCharacterError''))"
| "setAttribute P name v (Text _ _) = Inl TypeError"

fun removeAttribute :: "string \<Rightarrow> dom \<Rightarrow> error + dom" where
  "removeAttribute name (Element t a s l cs) =
     Inr (Element t (filter (\<lambda>(k, _). k \<noteq> name) a)
            (if name = ''style'' then [] else s) l cs)"
| "removeAttribute name (Text _ _) = Inl TypeError"

text \<open>\<open>Object.assign(element.style, value)\<close>; a text node has no \<open>style\<close>.\<close>

fun assign_style :: "(string \<times> string) list \<Rightarrow> dom \<Rightarrow> error + dom" where
  "assign_style ps (Element t a s l cs) =
     Inr (Element t a (foldl (\<lambda>acc (k, v). assign k v acc) s ps) l cs)"
| "assign_style ps (Text _ _) = Inl TypeError"

text \<open>A listener is registered once for an event name.\<close>

fun addEventListener :: "string \<Rightarrow> fnref \<Rightarrow> dom \<Rightarrow> dom" where
  "addEventListener ev f (Element t a s l cs) =
     Element t a s (if (ev, f) \<in> set l then l else l @ [(ev, f)]) cs"
| "addEventListener ev f (Text v l) = Text v (if (ev, f) \<in> set l then l else l @ [(ev, f)])"

text \<open>
  \<open>removeEventListener(ev, value)\<close>: a function is removed, \<open>null\<close>, \<open>undefined\<close>
  and other objects are ignored, and a primitive is refused with a \<open>TypeError\<close>.
\<close>

fun removeEventListener :: "string \<Rightarrow> 'n attrval \<Rightarrow> dom \<Rightarrow> error + dom" where
  "removeEventListener ev (AFun f) (Element t a s l cs) =
     Inr (Element t a s (filter (\<lambda>x. x \<noteq> (ev, f)) l) cs)"
| "removeEventListener ev (AFun f) (Text v l) = Inr (Text v (filter (\<lambda>x. x \<noteq> (ev, f)) l))"
| "removeEventListener ev AUndefined d = Inr d"
| "removeEventListener ev ANull d = Inr d"
| "removeEventListener ev (AObj _) d = Inr d"
| "removeEventListener ev _ d = Inl TypeError"

text \<open>\<open>String.prototype.toLowerCase\<close> on the characters of this model.\<close>

definition lower_char :: "char \<Rightarrow> char" where
  "lower_char c =
     (let n = of_char c :: nat
      in if (65 \<le> n \<and> n \<le> 90) \<or> (192 \<le> n \<and> n \<le> 222 \<and> n \<noteq> 215) then char_of (n + 32)
         else c)"

definition toLowerCase :: "string \<Rightarrow> string" where
  "toLowerCase s = map lower_char s"

definition startsWith :: "string \<Rightarrow> string \<Rightarrow> bool" where
  "startsWith s prefix = (take (length prefix) s = prefix)"

text \<open>\<open>String(value)\<close>, as \<open>setAttribute\<close> converts its second argument.\<close>

fun to_string :: "'n platform \<Rightarrow> 'n attrval \<Rightarrow> string" where
  "to_string P AUndefined = ''undefined''"
| "to_string P ANull = ''null''"
| "to_string P (ABool b) = (if b then ''true'' else ''false'')"
| "to_string P (ANum n) = num_string P n"
| "to_string P (AStr s) = s"
| "to_string P (AFun f) = fn_string P f"
| "to_string P (AObj _) = ''[object Object]''"

fun is_function :: "'n attrval \<Rightarrow> bool" where
  "is_function (AFun _) = True"
| "is_function _ = False"

text \<open>\<open>typeof value === 'object'\<close>, which holds for \<open>null\<close> too.\<close>

fun is_object :: "'n attrval \<Rightarrow> bool" where
  "is_object (AObj _) = True"
| "is_object ANull = True"
| "is_object _ = False"

fun own_entries :: "'n attrval \<Rightarrow> (string \<times> string) list" where
  "own_entries (AObj ps) = ps"
| "own_entries _ = []"

subsection \<open>\<open>render\<close>\<close>

text \<open>The body of the loop over \<open>Object.entries(vNode.attrs)\<close> in \<open>render\<close>.\<close>

definition render_attr :: "'n platform \<Rightarrow> string \<times> 'n attrval \<Rightarrow> dom \<Rightarrow> error + dom" where
  "render_attr P kv element =
     (case kv of (key, v) \<Rightarrow>
        if startsWith key ''on'' \<and> is_function v
        then (case v of AFun f \<Rightarrow> Inr (addEventListener (toLowerCase (drop 2 key)) f element)
              | _ \<Rightarrow> Inr element)
        else if key = ''style'' \<and> is_object v then assign_style (own_entries v) element
        else if key = ''className'' then setAttribute P ''class'' (to_string P v) element
        else (case v of
                ABool b \<Rightarrow> if b then setAttribute P key [] element else Inr element
              | ANull \<Rightarrow> Inr element
              | AUndefined \<Rightarrow> Inr element
              | _ \<Rightarrow> setAttribute P key (to_string P v) element))"

fun render_attrs :: "'n platform \<Rightarrow> 'n attrs \<Rightarrow> dom \<Rightarrow> error + dom" where
  "render_attrs P [] element = Inr element"
| "render_attrs P (kv # rest) element =
     (case render_attr P kv element of
        Inl e \<Rightarrow> Inl e
      | Inr element' \<Rightarrow> render_attrs P rest element')"

text \<open>
  \<open>render(vNode, container)\<close> returns the node it created (\<open>None\<close> for \<open>null\<close>) and
  the container with that node appended.  \<open>vNode.type\<close> is read first, which throws on
  \<open>null\<close> and \<open>undefined\<close>.  \<open>render_children\<close> is the loop
  \<open>vNode.children.forEach(child => render(child, element))\<close>.
\<close>

function render :: "'n platform \<Rightarrow> 'n vnode \<Rightarrow> dom \<Rightarrow> error + (dom option \<times> dom)"
and render_children :: "'n platform \<Rightarrow> 'n vnode list \<Rightarrow> dom \<Rightarrow> error + dom" where
  "render P VNull container = Inl TypeError"
| "render P VUndefined container = Inl TypeError"
| "render P (VText v) container =
     (case appendChild (createTextNode v) container of
        Inl e \<Rightarrow> Inl e
      | Inr container' \<Rightarrow> Inr (Some (createTextNode v), container'))"
| "render P (VNode tag attrs children) container =
     (case tag of
        None \<Rightarrow> Inr (None, container)
      | Some t \<Rightarrow>
          if t = [] then Inr (None, container)
          else (case document_createElement P t of
                  Inl e \<Rightarrow> Inl e
                | Inr element \<Rightarrow>
                    (case render_attrs P (case attrs of None \<Rightarrow> [] | Some a \<Rightarrow> a) element of
                       Inl e \<Rightarrow> Inl e
                     | Inr element1 \<Rightarrow>
                         (case render_children P (case children of None \<Rightarrow> [] | Some cs \<Rightarrow> cs)
                                 element1 of
                            Inl e \<Rightarrow> Inl e
                          | Inr element2 \<Rightarrow>
                              (case appendChild element2 container of
                                 Inl e \<Rightarrow> Inl e
                               | Inr container' \<Rightarrow> Inr (Some element2, container'))))))"
| "render P (VBool b) container = Inr (None, container)"
| "render P (VNum n) container = Inr (None, container)"
| "render P (VStr s) container = Inr (None, container)"
| "render P (VArr xs) container = Inr (None, container)"
| "render_children P [] element = Inr element"
| "render_children P (child # rest) element =
     (case render P child element of
        Inl e \<Rightarrow> Inl e
      | Inr (_, element') \<Rightarrow> render_children P rest element')"
  by pat_completeness auto
termination
  by (relation "measure (\<lambda>x. case x of
                   Inl (P, v, c) \<Rightarrow> size v
                 | Inr (P, vs, c) \<Rightarrow> size_list size vs)")
     (auto split: option.splits)

subsection \<open>A platform for examples\<close>

text \<open>Integers as numbers, printed in decimal, and names made of word characters.\<close>

fun digits :: "nat \<Rightarrow> nat \<Rightarrow> string" where
  "digits 0 n = []"
| "digits (Suc fuel) n =
     (if n < 10 then [char_of (48 + n)]
      else digits fuel (n div 10) @ [char_of (48 + n mod 10)])"

definition int_string :: "int \<Rightarrow> string" where
  "int_string i = (if i < 0 then CHR ''-'' # digits (nat (- i) + 1) (nat (- i))
                   else digits (nat i + 1) (nat i))"

definition PI :: "int platform" where
  "PI = \<lparr> num_string = int_string,
          num_falsy = (\<lambda>n. n = 0),
          fn_string = (\<lambda>f. ''function () { [code] }''),
          valid_name = (\<lambda>s. s \<noteq> [] \<and> list_all isWord s) \<rparr>"

subsection \<open>\<open>updateAttributes\<close>\<close>

text \<open>
  \<open>attr in newAttrs\<close> and \<open>oldAttrs[attr]\<close>, on the own properties of the
  attribute object; a missing property reads as \<open>undefined\<close>.
\<close>

definition has_key :: "'n attrs \<Rightarrow> string \<Rightarrow> bool" where
  "has_key attrs k \<longleftrightarrow> k \<in> fst ` set attrs"

definition lookup :: "'n attrs \<Rightarrow> string \<Rightarrow> 'n attrval" where
  "lookup attrs k = (case map_of attrs k of None \<Rightarrow> AUndefined | Some v \<Rightarrow> v)"

fun truthy_attr :: "'n platform \<Rightarrow> 'n attrval \<Rightarrow> bool" where
  "truthy_attr P AUndefined = False"
| "truthy_attr P ANull = False"
| "truthy_attr P (ABool b) = b"
| "truthy_attr P (ANum n) = (\<not> num_falsy P n)"
| "truthy_attr P (AStr s) = (s \<noteq> [])"
| "truthy_attr P (AFun _) = True"
| "truthy_attr P (AObj _) = True"

text \<open>The body of the loop over \<open>Object.keys(oldAttrs)\<close>.\<close>

definition remove_old_attr ::
  "'n attrs \<Rightarrow> 'n attrs \<Rightarrow> string \<Rightarrow> dom \<Rightarrow> error + dom" where
  "remove_old_attr newAttrs oldAttrs attr element =
     (if startsWith attr ''on''
      then removeEventListener (toLowerCase (drop 2 attr)) (lookup oldAttrs attr) element
      else if \<not> has_key newAttrs attr then removeAttribute attr element
      else Inr element)"

text \<open>
  The body of the loop over \<open>Object.entries(newAttrs)\<close>.  \<open>value !== oldAttrs[attr]\<close>
  is read as inequality of the values.
\<close>

definition set_new_attr ::
  "'n platform \<Rightarrow> 'n attrs \<Rightarrow> string \<times> 'n attrval \<Rightarrow> dom \<Rightarrow> error + dom" where
  "set_new_attr P oldAttrs kv element =
     (case kv of (attr, v) \<Rightarrow>
        if startsWith attr ''on'' \<and> is_function v
        then (case (if truthy_attr P (lookup oldAttrs attr)
                    then removeEventListener (toLowerCase (drop 2 attr)) (lookup oldAttrs attr)
                           element
                    else Inr element) of
                Inl e \<Rightarrow> Inl e
              | Inr element' \<Rightarrow>
                  (case v of
                     AFun f \<Rightarrow> Inr (addEventListener (toLowerCase (drop 2 attr)) f element')
                   | _ \<Rightarrow> Inr element'))
        else if attr = ''style'' \<and> is_object v
        then (case removeAttribute ''style'' element of
                Inl e \<Rightarrow> Inl e
              | Inr element' \<Rightarrow> assign_style (own_entries v) element')
        else if attr = ''className'' then setAttribute P ''class'' (to_string P v) element
        else (case v of
                ABool b \<Rightarrow> if b then setAttribute P attr [] element
                           else removeAttribute attr element
              | _ \<Rightarrow> if v \<noteq> lookup oldAttrs attr
                     then setAttribute P attr (to_string P v) element
                     else Inr element))"

text \<open>A loop whose body may throw.\<close>

fun forEach :: "('a \<Rightarrow> 's \<Rightarrow> error + 's) \<Rightarrow> 'a list \<Rightarrow> 's \<Rightarrow> error + 's" where
  "forEach body [] s = Inr s"
| "forEach body (x # xs) s =
     (case body x s of
        Inl e \<Rightarrow> Inl e
      | Inr s' \<Rightarrow> forEach body xs s')"

definition updateAttributes :: "'n platform \<Rightarrow> dom \<Rightarrow> 'n attrs \<Rightarrow> 'n attrs \<Rightarrow> error + dom" where
  "updateAttributes P element newAttrs oldAttrs =
     (case forEach (remove_old_attr newAttrs oldAttrs) (map fst oldAttrs) element of
        Inl e \<Rightarrow> Inl e
      | Inr element' \<Rightarrow> forEach (set_new_attr P oldAttrs) newAttrs element')"

subsection \<open>\<open>patch\<close> and \<open>updateChildren\<close>\<close>

text \<open>\<open>vNode.attrs || {}\<close> and \<open>vNode.children || []\<close>.\<close>

definition attrs_or_empty :: "'n vnode \<Rightarrow> 'n attrs" where
  "attrs_or_empty v = (case attrs_of v of None \<Rightarrow> [] | Some a \<Rightarrow> a)"

definition children_or_empty :: "'n vnode \<Rightarrow> 'n vnode list" where
  "children_or_empty v = (case children_of v of None \<Rightarrow> [] | Some cs \<Rightarrow> cs)"

text \<open>\<open>xs[i]\<close>, which is \<open>undefined\<close> beyond the end.\<close>

definition nth_opt :: "'a list \<Rightarrow> nat \<Rightarrow> 'a option" where
  "nth_opt xs i = (if i < length xs then Some (xs ! i) else None)"

text \<open>\<open>domElement.nodeValue = v\<close>, which changes a text node and no element.\<close>

fun set_nodeValue :: "string \<Rightarrow> dom \<Rightarrow> dom" where
  "set_nodeValue v (Text _ l) = Text v l"
| "set_nodeValue v (Element t a s l cs) = Element t a s l cs"

text \<open>The live child at a position, replaced or removed.\<close>

definition put_child :: "nat \<Rightarrow> dom \<Rightarrow> dom \<Rightarrow> dom" where
  "put_child i d parent = set_childNodes ((childNodes parent)[i := d]) parent"

definition drop_child :: "nat \<Rightarrow> dom \<Rightarrow> dom" where
  "drop_child i parent =
     set_childNodes (take i (childNodes parent) @ drop (Suc i) (childNodes parent)) parent"

text \<open>
  The second loop of \<open>updateChildren\<close>,
  \<open>for (let i = newChildren.length; i < oldChildren.length; i++) parent.removeChild(childNodes[i])\<close>,
  where \<open>snapshot\<close> is the array \<open>childNodes\<close> taken at entry.  \<open>removeChild\<close>
  finds its argument by identity.  When the loop starts, the children at the positions
  below \<open>newChildren.length\<close> have been changed or replaced in place and nothing has been
  appended or removed, so the node \<open>childNodes[i]\<close> is the live child at position \<open>i\<close>;
  each turn removes the child just before the next one, so at its turn \<open>childNodes[i]\<close>
  is the live child at position \<open>at = newChildren.length\<close>.  Beyond the end of the
  snapshot \<open>childNodes[i]\<close> is \<open>undefined\<close> and \<open>removeChild\<close> throws.
\<close>

function remove_loop :: "nat \<Rightarrow> nat \<Rightarrow> nat \<Rightarrow> dom list \<Rightarrow> dom \<Rightarrow> error + dom" where
  "remove_loop i stop at snapshot parent =
     (if i < stop
      then (if i < length snapshot
            then remove_loop (Suc i) stop at snapshot (drop_child at parent)
            else Inl TypeError)
      else Inr parent)"
  by pat_completeness auto
termination
  by (relation "measure (\<lambda>(i, stop, at, snapshot, parent). stop - i)") auto

text \<open>
  \<open>patch(newVNode, oldVNode, domElement)\<close> returns the node that stands where
  \<open>domElement\<close> stood: the node it rendered and put in its place, or \<open>domElement\<close>
  as changed.  \<open>domElement\<close> is \<open>None\<close> when the caller passes \<open>undefined\<close>; every
  path of \<open>patch\<close> then ends in a \<open>TypeError\<close>, after \<open>render\<close> in the first branch.
  A \<open>domElement\<close> that is given has a parent.

  \<open>patch_loop\<close> is the first loop of \<open>updateChildren\<close> from index \<open>i\<close> on.  The
  child \<open>childNodes[i]\<close> of the snapshot is the live child at position \<open>i\<close>, since the
  turns before changed or replaced children in place and appended at the end only.
\<close>

function
  patch :: "'n platform \<Rightarrow> 'n vnode \<Rightarrow> 'n vnode \<Rightarrow> dom option \<Rightarrow> error + dom"
and
  updateChildren :: "'n platform \<Rightarrow> dom \<Rightarrow> 'n vnode list \<Rightarrow> 'n vnode list \<Rightarrow> error + dom"
and
  patch_loop ::
    "'n platform \<Rightarrow> nat \<Rightarrow> 'n vnode list \<Rightarrow> 'n vnode list \<Rightarrow> dom list \<Rightarrow> dom \<Rightarrow> error + dom"
where
  "patch P newVNode oldVNode domElement =
     (if falsy P oldVNode
         \<or> (newVNode \<noteq> VNull \<and> newVNode \<noteq> VUndefined \<and> tag_of oldVNode \<noteq> tag_of newVNode)
      then (case render P newVNode (Element ''div'' [] [] [] []) of
              Inl e \<Rightarrow> Inl e
            | Inr (newElement, _) \<Rightarrow>
                (case domElement of
                   None \<Rightarrow> Inl TypeError
                 | Some d \<Rightarrow>
                     (case newElement of
                        None \<Rightarrow> Inl TypeError
                      | Some n \<Rightarrow> Inr n)))
      else if newVNode = VNull \<or> newVNode = VUndefined then Inl TypeError
      else (case newVNode of
              VText v \<Rightarrow>
                (case domElement of
                   None \<Rightarrow> Inl TypeError
                 | Some d \<Rightarrow> Inr (set_nodeValue v d))
            | _ \<Rightarrow>
                (case domElement of
                   None \<Rightarrow> Inl TypeError
                 | Some d \<Rightarrow>
                     (case updateAttributes P d (attrs_or_empty newVNode)
                             (attrs_or_empty oldVNode) of
                        Inl e \<Rightarrow> Inl e
                      | Inr d' \<Rightarrow>
                          updateChildren P d' (children_or_empty newVNode)
                            (children_or_empty oldVNode)))))"
| "updateChildren P parent newChildren oldChildren =
     (case patch_loop P 0 newChildren oldChildren (childNodes parent) parent of
        Inl e \<Rightarrow> Inl e
      | Inr parent' \<Rightarrow>
          remove_loop (length newChildren) (length oldChildren) (length newChildren)
            (childNodes parent) parent')"
| "patch_loop P i newChildren oldChildren snapshot parent =
     (if i < length newChildren
      then (if i < length oldChildren
            then (case patch P (newChildren ! i) (oldChildren ! i) (nth_opt snapshot i) of
                    Inl e \<Rightarrow> Inl e
                  | Inr d \<Rightarrow>
                      patch_loop P (Suc i) newChildren oldChildren snapshot (put_child i d parent))
            else (case render P (newChildren ! i) parent of
                    Inl e \<Rightarrow> Inl e
                  | Inr (_, parent') \<Rightarrow>
                      patch_loop P (Suc i) newChildren oldChildren snapshot parent'))
      else Inr parent)"
  by pat_completeness auto

lemma size_nth_less: "i < length xs \<Longrightarrow> size (xs ! i) < size_list size xs"
proof (induction xs arbitrary: i)
  case Nil then show ?case by simp
next
  case (Cons x xs)
  then show ?case by (cases i) (auto simp: less_Suc_eq trans_less_add2)
qed

termination patch
  by (relation "inv_image (less_than <*lex*> less_than <*lex*> less_than)
        (\<lambda>x. case x of
           Inl (P, new, old, d) \<Rightarrow> (size new, 2::nat, 0::nat)
         | Inr (Inl (P, parent, news, olds)) \<Rightarrow> (size_list size news, 1, 0)
         | Inr (Inr (P, i, news, olds, snapshot, parent)) \<Rightarrow>
             (size_list size news, 0, length news - i))")
     (auto simp: size_nth_less children_or_empty_def split: option.splits)

subsection \<open>Notions for the statements about \<open>updateChildren\<close>\<close>

text \<open>
  The node \<open>render\<close> creates for a virtual node, as \<open>patch\<close> obtains it in a
  detached container; the nodes created for a list of children, in order; and a node
  without its children.
\<close>

definition rendered :: "'n platform \<Rightarrow> 'n vnode \<Rightarrow> error + dom option" where
  "rendered P v =
     (case render P v (Element ''div'' [] [] [] []) of
        Inl e \<Rightarrow> Inl e
      | Inr (created, _) \<Rightarrow> Inr created)"

fun fresh_nodes :: "'n platform \<Rightarrow> 'n vnode list \<Rightarrow> error + dom list" where
  "fresh_nodes P [] = Inr []"
| "fresh_nodes P (v # vs) =
     (case rendered P v of
        Inl e \<Rightarrow> Inl e
      | Inr created \<Rightarrow>
          (case fresh_nodes P vs of
             Inl e \<Rightarrow> Inl e
           | Inr ds \<Rightarrow> Inr ((case created of None \<Rightarrow> [] | Some d \<Rightarrow> [d]) @ ds)))"

definition shell :: "dom \<Rightarrow> dom" where
  "shell d = set_childNodes [] d"

text \<open>Two lists of three and of two items, and a list that grows from one item to three.\<close>

definition li :: "string \<Rightarrow> int vnode" where
  "li t = createElement PI (Some ''li'') None [VStr t]"

definition list_abc :: "int vnode" where
  "list_abc = createElement PI (Some ''ul'') None [li ''a'', li ''b'', li ''c'']"

definition list_ax :: "int vnode" where
  "list_ax = createElement PI (Some ''ul'') None
               [li ''a'', createElement PI (Some ''p'') None [VStr ''x'']]"

text \<open>The live nodes that \<open>render\<close> creates for \<open>list_abc\<close> and for its first item.\<close>

definition dom_li :: "string \<Rightarrow> dom" where
  "dom_li t = Element ''li'' [] [] [] [Text t []]"

definition dom_abc :: dom where
  "dom_abc = Element ''ul'' [] [] [] [dom_li ''a'', dom_li ''b'', dom_li ''c'']"

definition dom_a :: dom where
  "dom_a = Element ''ul'' [] [] [] [dom_li ''a'']"
section \<open>Properties of the state store\<close>


lemma saveState_fields [simp]:
  "subscribers (saveState st) = subscribers st"
  "state (saveState st) = state st"
  "computedCache (saveState st) = computedCache st"
  "computedProperties (saveState st) = computedProperties st"
  "getterCalls (saveState st) = getterCalls st"
  by (simp_all add: saveState_def split: option.splits)

lemma state_getState [simp]: "state (snd (getState J prop st)) = state st"
  by (simp add: getState_def Let_def split: option.splits list.splits)








lemma same_property_refl [simp]: "same_property name st st"
  by (simp add: same_property_def)


















section \<open>Properties of the router\<close>

subsection \<open>Compiling patterns given by segments\<close>


lemma not_word_slash [simp]: "\<not> isWord CHR ''/''"
  by (simp add: isWord_def)

lemma tidy_path_of [simp]: "tidy (path_of segs)"
  by (cases segs) (simp_all add: tidy_def path_of_def)


lemma path_of_Nil [simp]: "path_of [] = []"
  by (simp add: path_of_def)

subsubsection \<open>collapse_slashes\<close>








subsubsection \<open>replace_params and param_names\<close>









subsubsection \<open>replace_wild\<close>





subsubsection \<open>parse_regexp\<close>


lemma slash_not_syntax [simp]: "\<not> syntaxChar CHR ''/''"
  by (simp add: syntaxChar_def)






subsection \<open>Matching\<close>









subsection \<open>Claims about matching\<close>







subsection \<open>Claims about route changes\<close>

text \<open>
  Claim C5.  When a \<open>beforeEach\<close> hook is configured, \<open>match\<close> returns, and the hook
  resolves to exactly \<open>false\<close> for the candidate route and the previous route, the call
  of \<open>handleRouteChange\<close> makes one call only, that of the hook: the route handler,
  the not-found handler, the \<open>afterEach\<close> hook and the listeners are not called.  The
  continuation that receives \<open>false\<close> calls nothing and changes nothing, whatever the
  router has become while the hook was awaited.
\<close>

theorem beforeEach_false_blocks:
  assumes "beforeEach r = Some h"
    and "match (routes r) (currentPath_of arg hash r) = Inr matched"
    and "B h (candidate (currentPath_of arg hash r) matched) (currentRoute r) = Resolves_false"
  shows "(\<exists>r'. handleRouteChange B hash arg r =
               (r', [Called_beforeEach h (candidate (currentPath_of arg hash r) matched)
                       (currentRoute r)], Fulfilled))
       \<and> (\<forall>e \<in> set (fst (snd (handleRouteChange B hash arg r))). \<not> after_veto e)
       \<and> (\<forall>pend r'. handleRouteChange_resume Resolves_false pend r' = (r', [], Fulfilled))"
  using assms
  by (simp add: handleRouteChange_def handleRouteChange_start_def handleRouteChange_resume_def
      Let_def)

theorem beforeEach_false_blocks_witness:
  "beforeEach demo_router = Some 20
   \<and> match (routes demo_router) ''/users/42''
       = Inr (Some (demo_routes ! 1, [''id'' \<mapsto> ''42'']))
   \<and> guard_users 20
        (Some \<lparr>cur_path = ''/users/42'', cur_params = [''id'' \<mapsto> ''42''], cur_meta = ()\<rparr>)
        None = Resolves_false
   \<and> (\<exists>r'. handleRouteChange guard_users ''#/users/42'' None demo_router =
         (r', [Called_beforeEach 20
                 (Some \<lparr>cur_path = ''/users/42'', cur_params = [''id'' \<mapsto> ''42''],
                         cur_meta = ()\<rparr>) None], Fulfilled))"
proof -
  have p: "currentPath_of None ''#/users/42'' demo_router = ''/users/42''"
    by (simp add: currentPath_of_def)
  have b: "beforeEach demo_router = Some 20"
    by (simp add: demo_router_def createRouter_def Let_def)
  have c: "currentRoute demo_router = None"
    by (simp add: demo_router_def createRouter_def Let_def)
  have m: "match (routes demo_router) ''/users/42''
             = Inr (Some (demo_routes ! 1, [''id'' \<mapsto> ''42'']))"
    by (simp add: demo_router_def demo_routes_def param_key_def)
  have k: "candidate ''/users/42'' (Some (demo_routes ! 1, [''id'' \<mapsto> ''42'']))
             = Some \<lparr>cur_path = ''/users/42'', cur_params = [''id'' \<mapsto> ''42''],
                      cur_meta = ()\<rparr>"
    by (simp add: candidate_def)
  have g: "guard_users 20
        (Some \<lparr>cur_path = ''/users/42'', cur_params = [''id'' \<mapsto> ''42''], cur_meta = ()\<rparr>)
        None = Resolves_false"
    by (simp add: guard_users_def)
  from beforeEach_false_blocks [of demo_router 20 None "''#/users/42''"
      "Some (demo_routes ! 1, [''id'' \<mapsto> ''42''])" guard_users]
  have "\<exists>r'. handleRouteChange guard_users ''#/users/42'' None demo_router =
         (r', [Called_beforeEach 20
                 (Some \<lparr>cur_path = ''/users/42'', cur_params = [''id'' \<mapsto> ''42''],
                         cur_meta = ()\<rparr>) None], Fulfilled)"
    by (simp only: p b c m k g) blast
  with b m g show ?thesis by (intro conjI)
qed

text \<open>
  Claim C6 fails on the code.  \<open>this.currentRoute\<close> is assigned before the hook is
  awaited and nothing assigns it back: in a router whose current route is \<open>null\<close>,
  with a hook that resolves to \<open>false\<close>, \<open>handleRouteChange('/about')\<close> ends with
  \<open>getCurrentRoute()\<close> returning the route of \<open>/about\<close>.  It is so for every
  transition (\<open>veto_never_restores\<close>): the part before the hook leaves the candidate
  in \<open>currentRoute\<close>, and the continuation of a veto returns the router as it finds it.
\<close>

theorem veto_leaves_candidate_route:
  "getCurrentRoute demo_router = None
   \<and> (case handleRouteChange veto_all [] (Some ''/about'') demo_router of
        (r', events, settled) \<Rightarrow>
          getCurrentRoute r'
            = Some \<lparr>cur_path = ''/about'', cur_params = Map.empty, cur_meta = ()\<rparr>
          \<and> events = [Called_beforeEach 20
                        (Some \<lparr>cur_path = ''/about'', cur_params = Map.empty, cur_meta = ()\<rparr>)
                        None]
          \<and> settled = Fulfilled)"
  by (simp add: handleRouteChange_def handleRouteChange_start_def handleRouteChange_resume_def
      Let_def demo_router_def demo_routes_def createRouter_def
      currentPath_of_def candidate_def veto_all_def getCurrentRoute_def)

lemma veto_never_restores:
  assumes "handleRouteChange_start hash arg r = (r2, Inr pend)"
  shows "currentRoute r2 = candidate (currentPath pend) (matchedRoute pend)"
    and "fst (handleRouteChange_resume Resolves_false pend r2) = r2"
  using assms
  by (auto simp: handleRouteChange_start_def handleRouteChange_resume_def Let_def
      split: sum.splits)

section \<open>Properties of the virtual DOM\<close>

subsection \<open>\<open>createElement\<close>\<close>

lemma entry_eq: "entry P v = (if keep v then [wrap P v] else [])"
  by (induction P v rule: entry.induct) (simp_all add: keep_def wrap_def)

lemma entries_eq: "concat (map (entry P) xs) = map (wrap P) (filter keep xs)"
  by (induction xs) (simp_all add: entry_eq)

lemma children_spec_eq: "children_spec P args = map (wrap P) (filter keep (flat args))"
  by (induction args rule: flat.induct) (simp_all add: entries_eq entry_eq)

lemma createElement_eq:
  "createElement P tag attrs args =
     VNode tag (Some (case attrs of None \<Rightarrow> [] | Some a \<Rightarrow> a)) (Some (children_spec P args))"
proof -
  have k: "keep = (\<lambda>child :: 'a vnode. child \<noteq> VNull \<and> child \<noteq> VUndefined \<and> child \<noteq> VBool False)"
    by (simp add: fun_eq_iff keep_def)
  have w: "wrap P = (\<lambda>child. case child of VStr s \<Rightarrow> VText s
                               | VNum n \<Rightarrow> VText (num_string P n) | _ \<Rightarrow> child)"
    by (simp add: fun_eq_iff wrap_def)
  show ?thesis
    by (simp add: createElement_def children_spec_eq Let_def k w)
qed

lemma wrap_keep_facts:
  assumes "keep v"
  shows "wrap P v \<noteq> VNull \<and> wrap P v \<noteq> VUndefined \<and> wrap P v \<noteq> VBool False
       \<and> \<not> is_primitive (wrap P v)"
  using assms by (cases v) (simp_all add: keep_def wrap_def)

lemma flat_nested: "VArr xs \<in> set args \<Longrightarrow> v \<in> set xs \<Longrightarrow> v \<in> set (flat args)"
  by (induction args rule: flat.induct) auto

text \<open>
  Claim C2.  For every argument list, the children of the node \<open>createElement\<close>
  builds are the entries the specification describes (\<open>children_spec\<close>): none of them
  is \<open>null\<close>, \<open>undefined\<close> or \<open>false\<close>; none is a bare string or number, each
  string or number among the flattened arguments having become the text node of its string
  representation; every node among the flattened arguments is there unchanged; and an
  array inside an array argument is still an array entry, so flattening goes one level
  deep and no further.
\<close>

theorem createElement_children:
  "\<exists>cs. createElement P tag attrs args
           = VNode tag (Some (case attrs of None \<Rightarrow> [] | Some a \<Rightarrow> a)) (Some cs)
       \<and> cs = children_spec P args
       \<and> VNull \<notin> set cs \<and> VUndefined \<notin> set cs \<and> VBool False \<notin> set cs
       \<and> (\<forall>c \<in> set cs. \<not> is_primitive c)
       \<and> (\<forall>s. VStr s \<in> set (flat args) \<longrightarrow> VText s \<in> set cs)
       \<and> (\<forall>n. VNum n \<in> set (flat args) \<longrightarrow> VText (num_string P n) \<in> set cs)
       \<and> (\<forall>v \<in> set (flat args). is_node v \<longrightarrow> v \<in> set cs)
       \<and> (\<forall>xs ys. VArr xs \<in> set args \<and> VArr ys \<in> set xs \<longrightarrow> VArr ys \<in> set cs)"
proof -
  let ?cs = "children_spec P args"
  have cs: "?cs = map (wrap P) (filter keep (flat args))" by (rule children_spec_eq)
  have every: "c \<noteq> VNull \<and> c \<noteq> VUndefined \<and> c \<noteq> VBool False \<and> \<not> is_primitive c"
    if "c \<in> set ?cs" for c
  proof -
    from that obtain v where "keep v" "c = wrap P v" unfolding cs by auto
    then show ?thesis using wrap_keep_facts [of v P] by simp
  qed
  have a: "VNull \<notin> set ?cs \<and> VUndefined \<notin> set ?cs \<and> VBool False \<notin> set ?cs"
    using every by blast
  have b: "\<forall>c \<in> set ?cs. \<not> is_primitive c"
    using every by blast
  have c: "\<forall>s. VStr s \<in> set (flat args) \<longrightarrow> VText s \<in> set ?cs"
  proof (intro allI impI)
    fix s assume "VStr s \<in> set (flat args)"
    then have "wrap P (VStr s) \<in> set ?cs" unfolding cs by (simp add: keep_def)
    then show "VText s \<in> set ?cs" by (simp add: wrap_def)
  qed
  have d: "\<forall>n. VNum n \<in> set (flat args) \<longrightarrow> VText (num_string P n) \<in> set ?cs"
  proof (intro allI impI)
    fix n assume "VNum n \<in> set (flat args)"
    then have "wrap P (VNum n) \<in> set ?cs" unfolding cs by (simp add: keep_def)
    then show "VText (num_string P n) \<in> set ?cs" by (simp add: wrap_def)
  qed
  have e: "\<forall>v \<in> set (flat args). is_node v \<longrightarrow> v \<in> set ?cs"
  proof (intro ballI impI)
    fix v assume v: "v \<in> set (flat args)" "is_node v"
    from v(2) have "keep v \<and> wrap P v = v" by (cases v) (simp_all add: keep_def wrap_def)
    with v(1) show "v \<in> set ?cs" unfolding cs by force
  qed
  have f: "\<forall>xs ys. VArr xs \<in> set args \<and> VArr ys \<in> set xs \<longrightarrow> VArr ys \<in> set ?cs"
  proof (intro allI impI)
    fix xs ys assume "VArr xs \<in> set args \<and> VArr ys \<in> set xs"
    then have "VArr ys \<in> set (flat args)" by (auto intro: flat_nested)
    moreover have "keep (VArr ys)" "wrap P (VArr ys) = VArr ys"
      by (simp_all add: keep_def wrap_def)
    ultimately show "VArr ys \<in> set ?cs" unfolding cs by force
  qed
  from createElement_eq [of P tag attrs args] a b c d e f show ?thesis by blast
qed

lemma int_string_7: "int_string 7 = ''7''"
  by code_simp

theorem createElement_children_witness:
  "createElement PI (Some ''ul'') None
     [VStr ''a'', VNull, VArr [VNum 7, VArr [VNull], VBool False, VBool True],
      VUndefined, VText ''t'', VNode (Some ''li'') (Some []) (Some [])]
   = VNode (Some ''ul'') (Some [])
       (Some [VText ''a'', VText ''7'', VArr [VNull], VBool True, VText ''t'',
              VNode (Some ''li'') (Some []) (Some [])])"
  using createElement_children [of PI "Some ''ul''" None
     "[VStr ''a'', VNull, VArr [VNum 7, VArr [VNull], VBool False, VBool True],
      VUndefined, VText ''t'', VNode (Some ''li'') (Some []) (Some [])]"]
  by (simp add: PI_def int_string_7)

subsection \<open>\<open>render\<close>\<close>

text \<open>
  Claim C9 fails on the code for \<open>null\<close> and \<open>undefined\<close>: \<open>render\<close> reads
  \<open>vNode.type\<close> before it tests \<open>!vNode\<close>, so the call throws a \<open>TypeError\<close>
  instead of returning \<open>null\<close>.  For a node object without a tag, or with an empty one,
  and for \<open>false\<close> and \<open>true\<close>, the call is the no-op the claim describes
  (\<open>render_without_tag\<close>).
\<close>

theorem render_null_throws:
  "render P VNull container = Inl TypeError \<and> render P VUndefined container = Inl TypeError"
  by simp

lemma render_without_tag:
  "render P (VNode None attrs children) container = Inr (None, container)"
  "render P (VNode (Some []) attrs children) container = Inr (None, container)"
  "render P (VBool b) container = Inr (None, container)"
  by simp_all


subsection \<open>\<open>updateChildren\<close>\<close>

declare patch.simps [simp del] updateChildren.simps [simp del] patch_loop.simps [simp del]
  remove_loop.simps [simp del]

lemma patch_undefined: "\<exists>e. patch P newVNode oldVNode None = Inl e"
  by (subst patch.simps) (auto split: sum.splits vnode.splits prod.splits)

lemma shell_simps [simp]:
  "shell (set_childNodes cs d) = shell d"
  "childNodes (set_childNodes cs (Element t a s l cs')) = cs"
  by (cases d; simp add: shell_def)+

lemma render_container:
  "render P v (Element t a s l cs) =
     (case rendered P v of
        Inl e \<Rightarrow> Inl e
      | Inr None \<Rightarrow> Inr (None, Element t a s l cs)
      | Inr (Some d) \<Rightarrow> Inr (Some d, Element t a s l (cs @ [d])))"
  by (cases v) (auto simp: rendered_def createTextNode_def split: sum.splits option.splits)

lemma render_text_container:
  "render P v (Text x l) = Inr (created, parent') \<Longrightarrow>
     rendered P v = Inr None \<and> created = None \<and> parent' = Text x l"
  by (cases v) (auto simp: rendered_def createTextNode_def split: sum.splits option.splits if_splits)

lemma render_appends:
  assumes "render P v parent = Inr (created, parent')"
  shows "rendered P v = Inr created
       \<and> childNodes parent' = childNodes parent @ (case created of None \<Rightarrow> [] | Some d \<Rightarrow> [d])
       \<and> shell parent' = shell parent"
proof (cases parent)
  case (Text x l)
  with assms show ?thesis using render_text_container [of P v x l created parent'] by simp
next
  case (Element t a s l cs)
  with assms show ?thesis
    using render_container [of P v t a s l cs]
    by (auto simp: shell_def split: sum.splits option.splits)
qed

lemma append_phase:
  assumes "length old \<le> i"
    and "patch_loop P i new old snapshot parent = Inr parent'"
  shows "\<exists>app. fresh_nodes P (drop i new) = Inr app
             \<and> childNodes parent' = childNodes parent @ app
             \<and> shell parent' = shell parent"
  using assms
proof (induction "length new - i" arbitrary: i parent)
  case 0
  then show ?case by (subst (asm) patch_loop.simps) simp
next
  case (Suc k)
  then have i: "i < length new" "\<not> i < length old" by simp_all
  from Suc.prems(2) i obtain created parent1 where
    r: "render P (new ! i) parent = Inr (created, parent1)"
    and rest: "patch_loop P (Suc i) new old snapshot parent1 = Inr parent'"
    by (subst (asm) patch_loop.simps) (auto split: sum.splits)
  from render_appends [OF r] have
    r1: "rendered P (new ! i) = Inr created"
    and r2: "childNodes parent1 = childNodes parent @ (case created of None \<Rightarrow> [] | Some d \<Rightarrow> [d])"
    and r3: "shell parent1 = shell parent" by simp_all
  have "k = length new - Suc i" using Suc.hyps(2) by simp
  moreover have "length old \<le> Suc i" using Suc.prems(1) by simp
  ultimately obtain app where
    a1: "fresh_nodes P (drop (Suc i) new) = Inr app"
    and a2: "childNodes parent' = childNodes parent1 @ app"
    and a3: "shell parent' = shell parent1"
    using Suc.hyps(1) rest by blast
  have "drop i new = new ! i # drop (Suc i) new"
    using i(1) by (simp add: Cons_nth_drop_Suc)
  then have "fresh_nodes P (drop i new)
               = Inr ((case created of None \<Rightarrow> [] | Some d \<Rightarrow> [d]) @ app)"
    using r1 a1 by simp
  with a2 a3 r2 r3 show ?case by simp
qed


lemma childNodes_put_child: "childNodes (put_child i d p) = (childNodes p)[i := d]"
  by (cases p) (simp_all add: put_child_def)

lemma childNodes_drop_child:
  "childNodes (drop_child i p) = take i (childNodes p) @ drop (Suc i) (childNodes p)"
  by (cases p) (simp_all add: drop_child_def)

lemma shell_put_drop [simp]:
  "shell (put_child i d p) = shell p" "shell (drop_child i p) = shell p"
  by (simp_all add: put_child_def drop_child_def)

lemma patch_phase:
  assumes "patch_loop P i new old cs parent = Inr parent'"
    and "i \<le> min (length new) (length old)"
    and "childNodes parent = pre @ drop i cs"
    and "length pre = i"
  shows "\<exists>patched app.
           childNodes parent' = pre @ patched @ drop (min (length new) (length old)) cs @ app
         \<and> length patched = min (length new) (length old) - i
         \<and> (\<forall>k < length patched. i + k < length cs
               \<and> patch P (new ! (i + k)) (old ! (i + k)) (Some (cs ! (i + k))) = Inr (patched ! k))
         \<and> fresh_nodes P (drop (length old) new) = Inr app
         \<and> shell parent' = shell parent"
  using assms
proof (induction "min (length new) (length old) - i" arbitrary: i parent pre)
  case 0
  then have i: "i = min (length new) (length old)" by simp
  show ?case
  proof (cases "length new \<le> length old")
    case True
    with i have "i = length new" by simp
    then have "parent' = parent"
      using "0.prems"(1) by (subst (asm) patch_loop.simps) simp
    moreover have "fresh_nodes P (drop (length old) new) = Inr []"
      using True by simp
    ultimately show ?thesis using "0.prems"(3) i by simp
  next
    case False
    with i have im: "i = length old" by simp
    then obtain app where "fresh_nodes P (drop i new) = Inr app"
      "childNodes parent' = childNodes parent @ app" "shell parent' = shell parent"
      using append_phase [of old i P new cs parent parent'] "0.prems"(1) by auto
    then show ?thesis using "0.prems"(3) i im by simp
  qed
next
  case (Suc k)
  then have i: "i < length new" "i < length old" by simp_all
  from Suc.prems(1) i obtain d where
    p: "patch P (new ! i) (old ! i) (nth_opt cs i) = Inr d"
    and rest: "patch_loop P (Suc i) new old cs (put_child i d parent) = Inr parent'"
    by (subst (asm) patch_loop.simps) (auto split: sum.splits)
  have ics: "i < length cs"
  proof (rule ccontr)
    assume "\<not> i < length cs"
    then have "nth_opt cs i = None" by (simp add: nth_opt_def)
    with p patch_undefined [of P "new ! i" "old ! i"] show False by simp
  qed
  then have p': "patch P (new ! i) (old ! i) (Some (cs ! i)) = Inr d"
    using p by (simp add: nth_opt_def)
  have "childNodes parent = pre @ cs ! i # drop (Suc i) cs"
    using Suc.prems(3) ics by (simp add: Cons_nth_drop_Suc)
  moreover have "(pre @ cs ! i # drop (Suc i) cs)[length pre := d] = pre @ d # drop (Suc i) cs"
    by (rule list_update_length)
  ultimately have cn: "childNodes (put_child i d parent) = (pre @ [d]) @ drop (Suc i) cs"
    using Suc.prems(4) by (simp add: childNodes_put_child)
  have "k = min (length new) (length old) - Suc i" using Suc.hyps(2) by simp
  moreover have "Suc i \<le> min (length new) (length old)" using i by simp
  moreover have "length (pre @ [d]) = Suc i" using Suc.prems(4) by simp
  ultimately obtain patched app where
    a: "childNodes parent' = (pre @ [d]) @ patched @ drop (min (length new) (length old)) cs @ app"
    and b: "length patched = min (length new) (length old) - Suc i"
    and c: "\<forall>j < length patched. Suc i + j < length cs
               \<and> patch P (new ! (Suc i + j)) (old ! (Suc i + j)) (Some (cs ! (Suc i + j)))
                   = Inr (patched ! j)"
    and e: "fresh_nodes P (drop (length old) new) = Inr app"
    and f: "shell parent' = shell (put_child i d parent)"
    using Suc.hyps(1) [of "Suc i" "put_child i d parent" "pre @ [d]"] rest cn by blast
  have c': "\<forall>j < length (d # patched). i + j < length cs
               \<and> patch P (new ! (i + j)) (old ! (i + j)) (Some (cs ! (i + j)))
                   = Inr ((d # patched) ! j)"
  proof (intro allI impI)
    fix j assume j: "j < length (d # patched)"
    show "i + j < length cs
               \<and> patch P (new ! (i + j)) (old ! (i + j)) (Some (cs ! (i + j)))
                   = Inr ((d # patched) ! j)"
    proof (cases j)
      case 0
      with ics p' show ?thesis by simp
    next
      case (Suc j')
      with j have "j' < length patched" by simp
      with c Suc show ?thesis by simp
    qed
  qed
  have "length (d # patched) = min (length new) (length old) - i"
    using b i by simp
  moreover have "childNodes parent'
      = pre @ (d # patched) @ drop (min (length new) (length old)) cs @ app"
    using a by simp
  ultimately show ?case using c' e f by (intro exI [of _ "d # patched"] exI [of _ app]) simp
qed

lemma remove_phase:
  assumes "remove_loop i stop at snapshot p = Inr p'"
  shows "(i < stop \<longrightarrow> stop \<le> length snapshot)
       \<and> childNodes p' = take at (childNodes p) @ drop (at + (stop - i)) (childNodes p)
       \<and> shell p' = shell p"
  using assms
proof (induction "stop - i" arbitrary: i p)
  case 0
  then show ?case by (subst (asm) remove_loop.simps) simp
next
  case (Suc k)
  then have i: "i < stop" by simp
  with Suc.prems have isn: "i < length snapshot"
    and rest: "remove_loop (Suc i) stop at snapshot (drop_child at p) = Inr p'"
    by (subst (asm) remove_loop.simps; simp split: if_splits)+
  have "k = stop - Suc i" using Suc.hyps(2) by simp
  with rest Suc.hyps(1) [of "Suc i" "drop_child at p"] have
    a: "Suc i < stop \<longrightarrow> stop \<le> length snapshot"
    and b: "childNodes p' = take at (childNodes (drop_child at p))
              @ drop (at + (stop - Suc i)) (childNodes (drop_child at p))"
    and c: "shell p' = shell p" by simp_all
  have l: "stop \<le> length snapshot" using a isn i by (cases "Suc i < stop") simp_all
  let ?L = "childNodes p"
  have "take at (take at ?L @ drop (Suc at) ?L) = take at ?L" by auto
  moreover have "drop (at + (stop - Suc i)) (take at ?L @ drop (Suc at) ?L)
                   = drop (at + (stop - i)) ?L"
  proof (cases "at \<le> length ?L")
    case True
    then have "length (take at ?L) = at" by simp
    then have "drop (at + (stop - Suc i)) (take at ?L @ drop (Suc at) ?L)
                 = drop (stop - Suc i) (drop (Suc at) ?L)" by simp
    also have "\<dots> = drop (Suc at + (stop - Suc i)) ?L" by (simp add: add.commute)
    also have "Suc at + (stop - Suc i) = at + (stop - i)" using i by simp
    finally show ?thesis .
  next
    case False
    then show ?thesis by simp
  qed
  ultimately show ?case using b c l by (simp add: childNodes_drop_child)
qed

text \<open>
  Claim C3.  Whenever \<open>updateChildren\<close> returns, the children of the parent are, in
  order: for each index within both sequences, the result of patching \<open>new[i]\<close> against
  \<open>old[i]\<close> on the live child that stood at position \<open>i\<close>; then the live children
  that stood beyond the old sequence, untouched; then, for the indices only within the new
  sequence, the nodes rendered fresh from those children, appended in order.  The live
  children at the positions only within the old sequence are gone, and they existed (a
  missing one makes \<open>removeChild\<close> throw).  Nothing else of the parent changes.
\<close>

theorem updateChildren_positional:
  assumes "updateChildren P parent new old = Inr parent'"
  shows "\<exists>patched appended.
           childNodes parent' = patched @ drop (length old) (childNodes parent) @ appended
         \<and> length patched = min (length new) (length old)
         \<and> (\<forall>i < length patched. i < length (childNodes parent)
               \<and> patch P (new ! i) (old ! i) (Some (childNodes parent ! i)) = Inr (patched ! i))
         \<and> fresh_nodes P (drop (length old) new) = Inr appended
         \<and> (length new < length old \<longrightarrow> length old \<le> length (childNodes parent))
         \<and> shell parent' = shell parent"
proof -
  let ?cs = "childNodes parent"
  let ?k = "min (length new) (length old)"
  from assms obtain p1 where
    l1: "patch_loop P 0 new old ?cs parent = Inr p1"
    and l2: "remove_loop (length new) (length old) (length new) ?cs p1 = Inr parent'"
    by (subst (asm) updateChildren.simps) (auto split: sum.splits)
  from patch_phase [OF l1, of "[]"] obtain patched app where
    a: "childNodes p1 = patched @ drop ?k ?cs @ app"
    and b: "length patched = ?k"
    and c: "\<forall>i < length patched. i < length ?cs
               \<and> patch P (new ! i) (old ! i) (Some (?cs ! i)) = Inr (patched ! i)"
    and e: "fresh_nodes P (drop (length old) new) = Inr app"
    and f: "shell p1 = shell parent" by auto
  from remove_phase [OF l2] have
    g: "length new < length old \<longrightarrow> length old \<le> length ?cs"
    and h: "childNodes parent' = take (length new) (childNodes p1)
              @ drop (length new + (length old - length new)) (childNodes p1)"
    and i: "shell parent' = shell p1" by simp_all
  have "childNodes parent' = patched @ drop (length old) ?cs @ app"
  proof (cases "length new \<le> length old")
    case True
    then have k: "?k = length new" by simp
    from True e have "app = []" by simp
    with a b k h True show ?thesis by simp
  next
    case False
    then have k: "?k = length old" by simp
    have "childNodes parent' = childNodes p1" using h False by simp
    with a k show ?thesis by simp
  qed
  with b c e g f i show ?thesis by auto
qed


lemma valid_PI [simp]: "valid_name PI ''li''" "valid_name PI ''p''" "valid_name PI ''ul''"
  by (simp_all add: PI_def isWord_def)

theorem updateChildren_positional_witness:
  "updateChildren PI dom_abc (children_or_empty list_ax) (children_or_empty list_abc)
     = Inr (Element ''ul'' [] [] [] [dom_li ''a'', Element ''p'' [] [] [] [Text ''x'' []]])
   \<and> (\<exists>patched appended.
         [dom_li ''a'', Element ''p'' [] [] [] [Text ''x'' []]]
           = patched @ drop 3 (childNodes dom_abc) @ appended
       \<and> length patched = 2
       \<and> (\<forall>i < length patched. i < length (childNodes dom_abc)
             \<and> patch PI (children_or_empty list_ax ! i) (children_or_empty list_abc ! i)
                  (Some (childNodes dom_abc ! i)) = Inr (patched ! i))
       \<and> fresh_nodes PI (drop 3 (children_or_empty list_ax)) = Inr appended)
   \<and> updateChildren PI dom_a (children_or_empty list_abc) [li ''a''] = Inr dom_abc
   \<and> (\<exists>patched appended.
         childNodes dom_abc = patched @ drop 1 (childNodes dom_a) @ appended
       \<and> length patched = 1
       \<and> fresh_nodes PI (drop 1 (children_or_empty list_abc)) = Inr appended)"
proof -
  have ev: "updateChildren PI dom_abc (children_or_empty list_ax) (children_or_empty list_abc)
     = Inr (Element ''ul'' [] [] [] [dom_li ''a'', Element ''p'' [] [] [] [Text ''x'' []]])"
    by (simp add: updateChildren.simps patch_loop.simps remove_loop.simps patch.simps
        children_or_empty_def attrs_or_empty_def list_ax_def list_abc_def li_def
        createElement_def dom_abc_def dom_li_def nth_opt_def updateAttributes_def
        put_child_def drop_child_def document_createElement_def createTextNode_def)
  have ev2: "updateChildren PI dom_a (children_or_empty list_abc) [li ''a''] = Inr dom_abc"
    by (simp add: updateChildren.simps patch_loop.simps remove_loop.simps patch.simps
        children_or_empty_def attrs_or_empty_def list_abc_def li_def
        createElement_def dom_abc_def dom_a_def dom_li_def nth_opt_def updateAttributes_def
        put_child_def drop_child_def document_createElement_def createTextNode_def)
  have len: "length (children_or_empty list_ax) = 2" "length (children_or_empty list_abc) = 3"
    by (simp_all add: children_or_empty_def list_ax_def list_abc_def createElement_def li_def)
  from updateChildren_positional [OF ev] have
    "\<exists>patched appended.
         [dom_li ''a'', Element ''p'' [] [] [] [Text ''x'' []]]
           = patched @ drop 3 (childNodes dom_abc) @ appended
       \<and> length patched = 2
       \<and> (\<forall>i < length patched. i < length (childNodes dom_abc)
             \<and> patch PI (children_or_empty list_ax ! i) (children_or_empty list_abc ! i)
                  (Some (childNodes dom_abc ! i)) = Inr (patched ! i))
       \<and> fresh_nodes PI (drop 3 (children_or_empty list_ax)) = Inr appended"
    by (simp add: len) blast
  moreover from updateChildren_positional [OF ev2] have
    "\<exists>patched appended.
         childNodes dom_abc = patched @ drop 1 (childNodes dom_a) @ appended
       \<and> length patched = 1
       \<and> fresh_nodes PI (drop 1 (children_or_empty list_abc)) = Inr appended"
    by (simp add: len) blast
  ultimately show ?thesis using ev ev2 by blast
qed

end
